theory Spec2Isabelle
  imports Main "HOL-Library.Word"
begin

unbundle bit_operations_syntax

section \<open>Errors of the backup codec\<close>

text \<open>
  The Go code reports failures as error values.  \<open>internal/data/backup.go\<close> produces
  \<^item> \<open>fmt.Errorf("%w: %s", os.ErrNotExist, src)\<close>,
  \<^item> \<open>fmt.Errorf("%w: %s", ErrInvalidBackupName, name)\<close>,
  \<^item> the \<open>*strconv.NumError\<close> of \<open>strconv.ParseInt\<close> (returned as it is by
    \<open>loadBackupTarTimestamp\<close>),
  and passes on, unchanged, the errors of the storage capability, of the tar accessor and
  of \<open>json.Unmarshal\<close>.
\<close>

datatype num_err = ErrSyntax | ErrRange

datatype error =
    ErrNotExist string
  | ErrInvalidBackupName string
  | NumError string num_err
  | FsError string
  | TarNotFound string
  | JsonError string

text \<open>The error taxonomy of the specification (section 7), as a classification of the
  error values above.\<close>

datatype error_kind = NotExist | FormatError | StorageError | StructuralError | DecodeError

fun kind_of :: "error \<Rightarrow> error_kind" where
  "kind_of (ErrNotExist _) = NotExist"
| "kind_of (ErrInvalidBackupName _) = FormatError"
| "kind_of (NumError _ _) = FormatError"
| "kind_of (FsError _) = StorageError"
| "kind_of (TarNotFound _) = StructuralError"
| "kind_of (JsonError _) = DecodeError"

section \<open>Library functions used by the code\<close>

subsection \<open>\<open>strconv.ParseInt(s, 10, 64)\<close> and \<open>%d\<close>\<close>

definition isDigit :: "char \<Rightarrow> bool" where
  "isDigit c = (48 \<le> (of_char c :: nat) \<and> (of_char c :: nat) \<le> 57)"

definition digitVal :: "char \<Rightarrow> nat" where
  "digitVal c = of_char c - 48"

text \<open>
  The loop of \<open>strconv.ParseUint\<close> for base 10 and 64 bits, on the bytes of the string.
  The accumulator \<open>n\<close> is a \<open>uint64\<close>; the model keeps it a natural number below
  \<open>2 ^ 64\<close> and writes the two overflow tests out: \<open>n >= cutoff\<close> with
  \<open>cutoff = maxUint64 / 10 + 1\<close> (then \<open>n * 10\<close> would overflow), and
  \<open>n1 < n\<close> after \<open>n1 := n * 10 + d\<close>, which for a wrapping sum is
  \<open>n * 10 + d \<ge> 2 ^ 64\<close>.  A byte that is not a decimal digit is a syntax error
  (a letter is a digit value \<open>\<ge> 10 = base\<close>).
\<close>

definition maxUint64 :: nat where
  "maxUint64 = 2 ^ 64 - 1"

definition cutoff64 :: nat where
  "cutoff64 = maxUint64 div 10 + 1"

fun parseUint_loop :: "nat \<Rightarrow> string \<Rightarrow> num_err + nat" where
  "parseUint_loop n [] = Inr n"
| "parseUint_loop n (c # cs) =
     (if \<not> isDigit c then Inl ErrSyntax
      else if n \<ge> cutoff64 then Inl ErrRange
      else let n1 = n * 10 + digitVal c in
        if n1 > maxUint64 then Inl ErrRange
        else parseUint_loop n1 cs)"

definition ParseUint :: "string \<Rightarrow> num_err + nat" where
  "ParseUint s = (if s = [] then Inl ErrSyntax else parseUint_loop 0 s)"

text \<open>
  \<open>strconv.ParseInt\<close>: an empty string is a syntax error; one leading \<open>+\<close> or \<open>-\<close>
  is taken off; a syntax error of \<open>ParseUint\<close> is returned; a range error of
  \<open>ParseUint\<close> continues with \<open>un = maxUint64\<close> and ends in the range tests against
  \<open>cutoff = 1 << 63\<close>.  The result is an \<open>int64\<close>, here an integer in its range.
\<close>

definition ParseInt :: "string \<Rightarrow> error + int" where
  "ParseInt s0 =
     (if s0 = [] then Inl (NumError s0 ErrSyntax)
      else
        let neg = (hd s0 = CHR ''-'');
            s = (if hd s0 = CHR ''+'' \<or> hd s0 = CHR ''-'' then tl s0 else s0)
        in case ParseUint s of
             Inl ErrSyntax \<Rightarrow> Inl (NumError s0 ErrSyntax)
           | r \<Rightarrow>
               let un = (case r of Inr u \<Rightarrow> u | Inl _ \<Rightarrow> maxUint64) in
               if \<not> neg \<and> un \<ge> 2 ^ 63 then Inl (NumError s0 ErrRange)
               else if neg \<and> un > 2 ^ 63 then Inl (NumError s0 ErrRange)
               else Inr (if neg then - int un else int un))"

text \<open>\<open>%d\<close> of an \<open>int64\<close> (\<open>strconv.FormatInt(i, 10)\<close>): the decimal digits, most
  significant first, after a \<open>-\<close> for a negative value.\<close>

definition digitChar :: "nat \<Rightarrow> char" where
  "digitChar d = ''0123456789'' ! d"

fun utoa :: "nat \<Rightarrow> string" where
  "utoa n = (if n < 10 then [digitChar n]
             else utoa (n div 10) @ [digitChar (n mod 10)])"

declare utoa.simps [simp del]

definition itoa :: "int \<Rightarrow> string" where
  "itoa i = (if i < 0 then CHR ''-'' # utoa (nat (- i)) else utoa (nat i))"

subsection \<open>\<open>time.Time\<close>\<close>

text \<open>
  A \<open>time.Time\<close> holds the seconds since 1 January of year 1 in an \<open>int64\<close> (\<open>ext\<close>)
  and the nanoseconds.  \<open>time.Unix(sec, 0)\<close> stores \<open>sec + unixToInternal\<close>, and
  \<open>t.Unix()\<close> returns \<open>ext + internalToUnix\<close>, both in wrapping \<open>int64\<close> arithmetic.
\<close>

record Time =
  ext :: "64 word"
  nsec :: nat

definition unixToInternal :: "64 word" where
  "unixToInternal = 62135596800"

definition time_Unix :: "int \<Rightarrow> Time" where
  "time_Unix sec = \<lparr>ext = word_of_int sec + unixToInternal, nsec = 0\<rparr>"

definition Unix :: "Time \<Rightarrow> int" where
  "Unix t = sint (ext t - unixToInternal)"

subsection \<open>The regular expression of backup file names\<close>

text \<open>
  \<open>backupFileNameRegex = ^(?P<instance_id>.*)-(?P<timestamp>[0-9]+)\.tar$\<close>, with Go's
  leftmost-first semantics (the match a backtracking engine finds first), no flags:
  \<open>.\<close> matches any byte but the newline, \<open>$\<close> only the end of the text.

  \<open>match_tail\<close> matches \<open>-([0-9]+)\.tar$\<close> at the head of its argument and returns the
  digit run.  The greedy \<open>[0-9]+\<close> takes every digit: giving one back would leave a digit
  where \<open>\.\<close> has to match.
\<close>

definition newline :: char where
  "newline = CHR 0x0A"

definition match_tail :: "string \<Rightarrow> string option" where
  "match_tail s =
     (case s of
        [] \<Rightarrow> None
      | c # r \<Rightarrow>
          if c \<noteq> CHR ''-'' then None
          else let ds = takeWhile isDigit r; rest = dropWhile isDigit r in
            if ds \<noteq> [] \<and> rest = ''.tar'' then Some ds else None)"

text \<open>
  \<open>match_from pre s\<close> matches the greedy \<open>(.*)\<close>, having consumed \<open>pre\<close>: it first
  tries to consume one more byte (not a newline), and only when the rest of the pattern
  fails after that does it try the rest of the pattern here.
\<close>

fun match_from :: "string \<Rightarrow> string \<Rightarrow> (string \<times> string) option" where
  "match_from pre [] = map_option (Pair pre) (match_tail [])"
| "match_from pre (c # cs) =
     (case (if c = newline then None else match_from (pre @ [c]) cs) of
        Some r \<Rightarrow> Some r
      | None \<Rightarrow> map_option (Pair pre) (match_tail (c # cs)))"

text \<open>\<open>FindStringSubmatch\<close>: the whole match and the two groups, or \<open>nil\<close>.\<close>

definition FindStringSubmatch :: "string \<Rightarrow> string list" where
  "FindStringSubmatch s =
     (case match_from [] s of None \<Rightarrow> [] | Some (g1, g2) \<Rightarrow> [s, g1, g2])"

section \<open>\<open>ParseBackupName\<close>\<close>

definition ParseBackupName :: "string \<Rightarrow> error + (string \<times> Time)" where
  "ParseBackupName backupName =
     (let match = FindStringSubmatch backupName in
      if length match \<noteq> 3 then Inl (ErrInvalidBackupName backupName)
      else
        let instanceId = match ! 1 in
        case ParseInt (match ! 2) of
          Inl _ \<Rightarrow> Inl (ErrInvalidBackupName backupName)
        | Inr timestampInt \<Rightarrow> Inr (instanceId, time_Unix timestampInt))"

section \<open>The documented shape of a backup file name\<close>

text \<open>
  The specification's words for a well-formed name, \<open>"<instanceId>-<digits>.tar"\<close>: the
  name ends in \<open>.tar\<close>; the run of decimal digits immediately before that suffix is not
  empty and is preceded by a hyphen; and the digits are the decimal notation of a
  non-negative 64-bit signed integer (a value below \<open>2 ^ 63\<close>).
\<close>

definition decimalValue :: "string \<Rightarrow> nat" where
  "decimalValue ds = foldl (\<lambda>n c. n * 10 + digitVal c) 0 ds"

definition name_shape :: "string \<Rightarrow> bool" where
  "name_shape name =
     (let n = length name in
      n \<ge> 4 \<and> drop (n - 4) name = ''.tar'' \<and>
      (let stem = take (n - 4) name;
           ds = rev (takeWhile isDigit (rev stem));
           pre = rev (dropWhile isDigit (rev stem))
       in ds \<noteq> [] \<and> pre \<noteq> [] \<and> last pre = CHR ''-'' \<and> decimalValue ds < 2 ^ 63))"

section \<open>\<open>BackupFromTar\<close>\<close>

subsection \<open>The instance descriptor and the backup value\<close>

text \<open>
  Modelled from the spec: the \<open>Instance\<close> type and its \<open>ID()\<close> method are declared in
  a file of package \<open>data\<close> that is not among the sources.  The specification gives the
  fields \<open>Version\<close>, \<open>Commit\<close>, \<open>URL\<close> and a derived \<open>ID\<close> of the form
  \<open><repo>-<tag>\<close> (the repository name and the tag, as the \<open>run\<close> command documents).
\<close>

record Instance =
  Name :: string
  Tag :: string
  URL :: string
  Version :: string
  Commit :: string

definition ID :: "Instance \<Rightarrow> string" where
  "ID i = Name i @ ''-'' @ Tag i"

text \<open>The struct \<open>Backup\<close>; \<open>id'\<close> is its unexported field \<open>id\<close>, empty until \<open>Id()\<close>
  is first called.\<close>

record Backup =
  id' :: string
  InstanceId :: string
  Timestamp :: Time
  Version :: string
  Commit :: string
  Url :: string

subsection \<open>The storage capability\<close>

text \<open>
  \<open>afero.Fs\<close> is an interface supplied by the caller.  The model keeps the two methods the
  code calls: \<open>Stat\<close>, which succeeds, reports that the path does not exist, or fails
  otherwise, and \<open>OpenFile\<close> (read-only), which fails or gives the handle, modelled by the
  tar stream read through it: the archive's entries (name and bytes) in stream order.
  Every call is recorded, so that a theorem can say what was not called.
\<close>

datatype stat_result = StatOk | StatNotExist | StatFailed string

type_synonym tar_stream = "(string \<times> string) list"

record Fs =
  Stat :: "string \<Rightarrow> stat_result"
  OpenFile :: "string \<Rightarrow> string + tar_stream"

datatype fs_event = EvStat string | EvOpen string | EvClose string

text \<open>\<open>afero.Exists\<close>: true when \<open>Stat\<close> succeeds, false when \<open>os.IsNotExist\<close> holds
  of its error, and that error otherwise.\<close>

definition afero_Exists :: "Fs \<Rightarrow> string \<Rightarrow> (error + bool) \<times> fs_event list" where
  "afero_Exists fs path =
     ((case Stat fs path of
         StatOk \<Rightarrow> Inr True
       | StatNotExist \<Rightarrow> Inr False
       | StatFailed msg \<Rightarrow> Inl (FsError msg)),
      [EvStat path])"

text \<open>\<open>filepath.Ext\<close>: scanning from the end of the path up to the last separator, the
  suffix that starts at the first dot met; empty when there is none.  The first argument
  of \<open>Ext_scan\<close> is the part of the path not yet scanned, last byte first.\<close>

fun Ext_scan :: "string \<Rightarrow> string \<Rightarrow> string" where
  "Ext_scan [] suffix = []"
| "Ext_scan (c # before) suffix =
     (if c = CHR ''/'' then []
      else if c = CHR ''.'' then c # suffix
      else Ext_scan before (c # suffix))"

definition filepath_Ext :: "string \<Rightarrow> string" where
  "filepath_Ext path = Ext_scan (rev path) []"

text \<open>
  Modelled from the spec: \<open>utils.TarReadFile\<close> is not among the sources.  The tar accessor
  scans the entries in order and returns the bytes of the first entry whose name equals
  the target; it fails with a not-found condition when the stream ends without a match.
\<close>

fun TarReadFile :: "string \<Rightarrow> tar_stream \<Rightarrow> error + string" where
  "TarReadFile target [] = Inl (TarNotFound target)"
| "TarReadFile target ((name, content) # rest) =
     (if name = target then Inr content else TarReadFile target rest)"

subsection \<open>The two extractions and \<open>BackupFromTar\<close>\<close>

text \<open>\<open>json.Unmarshal\<close> into an \<open>Instance\<close> is a parameter: a function from the bytes
  of \<open>data/state.json\<close> to the decoded instance or the message of the decoding error.\<close>

definition loadBackupTarStateJson ::
  "(string \<Rightarrow> string + Instance) \<Rightarrow> Fs \<Rightarrow> string \<Rightarrow> (error + Instance) \<times> fs_event list" where
  "loadBackupTarStateJson json_Unmarshal fs tarPath =
     (case OpenFile fs tarPath of
        Inl msg \<Rightarrow> (Inl (FsError msg), [EvOpen tarPath])
      | Inr tarFile \<Rightarrow>
          ((case TarReadFile ''data/state.json'' tarFile of
              Inl e \<Rightarrow> Inl e
            | Inr stateData \<Rightarrow>
                (case json_Unmarshal stateData of
                   Inl msg \<Rightarrow> Inl (JsonError msg)
                 | Inr instance \<Rightarrow> Inr instance)),
           [EvOpen tarPath, EvClose tarPath]))"

definition loadBackupTarTimestamp :: "Fs \<Rightarrow> string \<Rightarrow> (error + Time) \<times> fs_event list" where
  "loadBackupTarTimestamp fs tarPath =
     (case OpenFile fs tarPath of
        Inl msg \<Rightarrow> (Inl (FsError msg), [EvOpen tarPath])
      | Inr tarFile \<Rightarrow>
          ((case TarReadFile ''timestamp'' tarFile of
              Inl e \<Rightarrow> Inl e
            | Inr timestampData \<Rightarrow>
                (case ParseInt timestampData of
                   Inl e \<Rightarrow> Inl e
                 | Inr timestampInt \<Rightarrow> Inr (time_Unix timestampInt))),
           [EvOpen tarPath, EvClose tarPath]))"

definition BackupFromTar ::
  "(string \<Rightarrow> string + Instance) \<Rightarrow> Fs \<Rightarrow> string \<Rightarrow> (error + Backup) \<times> fs_event list" where
  "BackupFromTar json_Unmarshal fs src =
     (case afero_Exists fs src of
        (Inl e, log1) \<Rightarrow> (Inl e, log1)
      | (Inr ok, log1) \<Rightarrow>
          if \<not> ok then (Inl (ErrNotExist src), log1)
          else if filepath_Ext src \<noteq> ''.tar'' then (Inl (ErrInvalidBackupName src), log1)
          else
            (case loadBackupTarStateJson json_Unmarshal fs src of
               (Inl e, log2) \<Rightarrow> (Inl e, log1 @ log2)
             | (Inr instance, log2) \<Rightarrow>
                 (case loadBackupTarTimestamp fs src of
                    (Inl e, log3) \<Rightarrow> (Inl e, log1 @ log2 @ log3)
                  | (Inr timestamp, log3) \<Rightarrow>
                      (Inr \<lparr>id' = [], InstanceId = ID instance, Timestamp = timestamp,
                            Version = Instance.Version instance,
                            Commit = Instance.Commit instance, Url = URL instance\<rparr>,
                       log1 @ log2 @ log3))))"

text \<open>Whether a run tried to open a file.\<close>

definition opens_archive :: "fs_event list \<Rightarrow> bool" where
  "opens_archive log = list_ex (\<lambda>ev. case ev of EvOpen _ \<Rightarrow> True | _ \<Rightarrow> False) log"

subsection \<open>A storage with three archives, for the concrete instances below\<close>

definition example_instance :: Instance where
  "example_instance = \<lparr>Name = ''mock-avs'', Tag = ''v0.1.0'',
     URL = ''https://github.com/NethermindEth/mock-avs'', Instance.Version = ''v0.1.0'',
     Instance.Commit = ''a3406616b848164358fdd24465b8eecda5f5ae34''\<rparr>"

definition example_state_json :: string where
  "example_state_json = ''{name: mock-avs, tag: v0.1.0}''"

definition example_unmarshal :: "string \<Rightarrow> string + Instance" where
  "example_unmarshal s =
     (if s = example_state_json then Inr example_instance
      else Inl ''invalid character looking for beginning of value'')"

definition example_fs :: Fs where
  "example_fs =
     \<lparr>Stat = (\<lambda>p. if p \<in> set [''backups/mock-avs-v0.1.0-1700000000.tar'',
                               ''backups/bad-timestamp.tar'', ''backups/no-state.tar'',
                               ''backups/notes.txt'']
                   then StatOk else StatNotExist),
      OpenFile = (\<lambda>p.
        if p = ''backups/mock-avs-v0.1.0-1700000000.tar''
          then Inr [(''data/state.json'', example_state_json), (''timestamp'', ''1700000000'')]
        else if p = ''backups/bad-timestamp.tar''
          then Inr [(''timestamp'', ''17e8''), (''data/state.json'', example_state_json)]
        else if p = ''backups/no-state.tar''
          then Inr [(''timestamp'', ''17e8'')]
        else Inl ''open: no such file or directory'')\<rparr>"

section \<open>Properties of the library functions\<close>

lemma Unix_time_Unix: "- (2^63) \<le> s \<Longrightarrow> s < 2^63 \<Longrightarrow> Unix (time_Unix s) = s"
  by (simp add: Unix_def time_Unix_def sint_sbintrunc' signed_take_bit_int_eq_self)

lemma digit_cases: "(d::nat) < 10 \<Longrightarrow> d \<in> {0, 1, 2, 3, 4, 5, 6, 7, 8, 9}"
  by auto

lemma isDigit_char_of: "(d::nat) < 10 \<Longrightarrow> isDigit (digitChar d)"
  by (drule digit_cases) (auto simp: isDigit_def digitChar_def)

lemma digitVal_char_of: "(d::nat) < 10 \<Longrightarrow> digitVal (digitChar d) = d"
  by (drule digit_cases) (auto simp: digitVal_def digitChar_def)

lemma utoa_nonempty: "utoa n \<noteq> []"
  by (subst utoa.simps) simp

lemma utoa_digits: "list_all isDigit (utoa n)"
proof (induction n rule: utoa.induct)
  case (1 n)
  then show ?case
    by (subst utoa.simps) (simp add: isDigit_char_of)
qed

lemma isDigit_not_sign: "isDigit c \<Longrightarrow> c \<noteq> CHR ''-'' \<and> c \<noteq> CHR ''+'' \<and> c \<noteq> CHR ''.''"
  by (auto simp: isDigit_def)

lemma parseUint_loop_snoc:
  "parseUint_loop n (xs @ [c]) =
     (case parseUint_loop n xs of Inl e \<Rightarrow> Inl e | Inr m \<Rightarrow> parseUint_loop m [c])"
  by (induction xs arbitrary: n) (auto simp: Let_def)

lemma parseUint_loop_utoa: "n \<le> maxUint64 \<Longrightarrow> parseUint_loop 0 (utoa n) = Inr n"
proof (induction n rule: utoa.induct)
  case (1 n)
  show ?case
  proof (cases "n < 10")
    case True
    then show ?thesis using 1(2)
      by (subst utoa.simps) (simp add: isDigit_char_of digitVal_char_of cutoff64_def maxUint64_def)
  next
    case False
    have "n div 10 \<le> maxUint64" using 1(2) by simp
    then have ih: "parseUint_loop 0 (utoa (n div 10)) = Inr (n div 10)"
      using 1(1) False by simp
    have lt: "n div 10 < cutoff64" using 1(2) by (simp add: cutoff64_def maxUint64_def)
    show ?thesis using False ih lt 1(2)
      by (subst utoa.simps)
         (simp add: parseUint_loop_snoc isDigit_char_of digitVal_char_of Let_def)
  qed
qed

lemma ParseInt_utoa: "n < 2 ^ 63 \<Longrightarrow> ParseInt (utoa n) = Inr (int n)"
proof -
  assume n: "n < 2 ^ 63"
  have ne: "utoa n \<noteq> []" by (rule utoa_nonempty)
  have "isDigit (hd (utoa n))"
    using utoa_digits [of n] ne by (cases "utoa n") simp_all
  then have hd: "hd (utoa n) \<noteq> CHR ''-''" "hd (utoa n) \<noteq> CHR ''+''"
    using isDigit_not_sign by blast+
  have "n \<le> maxUint64" using n by (simp add: maxUint64_def)
  then have "ParseUint (utoa n) = Inr n"
    by (simp add: ParseUint_def ne parseUint_loop_utoa)
  then show ?thesis using ne hd n by (simp add: ParseInt_def)
qed

lemma match_tail_digits:
  "ds \<noteq> [] \<Longrightarrow> list_all isDigit ds \<Longrightarrow> match_tail (''-'' @ ds @ ''.tar'') = Some ds"
proof -
  assume ne: "ds \<noteq> []" and dg: "list_all isDigit ds"
  have nd: "\<not> isDigit CHR ''.''" by (simp add: isDigit_def)
  have tw: "takeWhile isDigit (ds @ ''.tar'') = ds"
    using dg nd by (simp add: list_all_iff takeWhile_append2 )
  have dw: "dropWhile isDigit (ds @ ''.tar'') = ''.tar''"
    using dg nd by (simp add: list_all_iff dropWhile_append2)
  show ?thesis using ne tw dw by (simp add: match_tail_def)
qed

lemma match_tail_Some:
  "match_tail s = Some ds \<Longrightarrow> s = ''-'' @ ds @ ''.tar'' \<and> ds \<noteq> [] \<and> list_all isDigit ds"
proof -
  assume a: "match_tail s = Some ds"
  then obtain r where s: "s = CHR ''-'' # r"
    by (auto simp: match_tail_def split: list.splits if_splits)
  from a s have ds: "ds = takeWhile isDigit r" and ne: "takeWhile isDigit r \<noteq> []"
    and rest: "dropWhile isDigit r = ''.tar''"
    by (auto simp: match_tail_def Let_def split: if_splits)
  have "r = takeWhile isDigit r @ dropWhile isDigit r" by simp
  then have "r = ds @ ''.tar''" using ds rest by simp
  moreover have "list_all isDigit ds" unfolding ds list_all_iff
    by (auto dest: set_takeWhileD)
  ultimately show ?thesis using s ds ne by simp
qed

lemma match_from_no_hyphen:
  "CHR ''-'' \<notin> set s \<Longrightarrow> match_from pre s = None"
  by (induction s arbitrary: pre) (auto simp: match_tail_def)

lemma match_from_roundtrip:
  assumes "newline \<notin> set i" "ds \<noteq> []" "list_all isDigit ds"
  shows "match_from pre (i @ ''-'' @ ds @ ''.tar'') = Some (pre @ i, ds)"
  using assms(1)
proof (induction i arbitrary: pre)
  case Nil
  have "CHR ''-'' \<notin> set (ds @ ''.tar'')"
    using assms(3) isDigit_not_sign by (auto simp: list_all_iff)
  then have none: "match_from (pre @ ''-'') (ds @ ''.tar'') = None"
    by (rule match_from_no_hyphen)
  have "match_tail (CHR ''-'' # ds @ ''.tar'') = Some ds"
    using match_tail_digits [OF assms(2,3)] by simp
  then show ?case using none by (simp add: newline_def)
next
  case (Cons c i)
  then have "match_from (pre @ [c]) (i @ ''-'' @ ds @ ''.tar'') = Some ((pre @ [c]) @ i, ds)"
    by simp
  then show ?case using Cons.prems by auto
qed

lemma match_from_Some:
  "match_from pre s = Some (g1, g2) \<Longrightarrow>
     \<exists>i. g1 = pre @ i \<and> s = i @ ''-'' @ g2 @ ''.tar'' \<and> g2 \<noteq> [] \<and> list_all isDigit g2"
proof (induction s arbitrary: pre)
  case Nil
  then show ?case by (simp add: match_tail_def)
next
  case (Cons c cs)
  show ?case
  proof (cases "c \<noteq> newline \<and> match_from (pre @ [c]) cs \<noteq> None")
    case True
    then have "match_from (pre @ [c]) cs = Some (g1, g2)"
      using Cons.prems by (auto split: option.splits)
    from Cons.IH [OF this] show ?thesis by auto
  next
    case False
    then have "match_tail (c # cs) = Some g2" and "g1 = pre"
      using Cons.prems by (auto split: option.splits if_splits)
    then show ?thesis using match_tail_Some by fastforce
  qed
qed

lemma parseUint_loop_value:
  "parseUint_loop n ds = Inr v \<Longrightarrow> foldl (\<lambda>n c. n * 10 + digitVal c) n ds = v"
  by (induction ds arbitrary: n) (auto simp: Let_def split: if_splits)

lemma ParseInt_digits_Inr:
  assumes "ParseInt ds = Inr t" "ds \<noteq> []" "list_all isDigit ds"
  shows "decimalValue ds < 2 ^ 63"
proof -
  have "isDigit (hd ds)" using assms(2,3) by (cases ds) simp_all
  then have hd: "hd ds \<noteq> CHR ''-''" "hd ds \<noteq> CHR ''+''"
    using isDigit_not_sign by blast+
  obtain u where u: "ParseUint ds = Inr u" "u < 2 ^ 63"
    using assms(1,2) hd
    by (cases "ParseUint ds")
       (auto simp: ParseInt_def maxUint64_def split: num_err.splits if_splits)
  then have "parseUint_loop 0 ds = Inr u" using assms(2) by (simp add: ParseUint_def)
  then have "decimalValue ds = u"
    unfolding decimalValue_def by (rule parseUint_loop_value)
  then show ?thesis using u(2) by simp
qed

lemma name_shapeI:
  assumes "name = i @ ''-'' @ ds @ ''.tar''" "ds \<noteq> []" "list_all isDigit ds"
    "decimalValue ds < 2 ^ 63"
  shows "name_shape name"
proof -
  have len: "length name - 4 = length (i @ ''-'' @ ds)" using assms(1) by simp
  have stem: "take (length name - 4) name = i @ ''-'' @ ds"
    unfolding len using assms(1) by simp
  have suf: "drop (length name - 4) name = ''.tar''"
    unfolding len using assms(1) by simp
  have nd: "\<not> isDigit CHR ''-''" by (simp add: isDigit_def)
  have rv: "rev (i @ ''-'' @ ds) = rev ds @ CHR ''-'' # rev i" by simp
  have all: "\<forall>x\<in>set (rev ds). isDigit x" using assms(3) by (simp add: list_all_iff)
  have tw: "takeWhile isDigit (rev (i @ ''-'' @ ds)) = rev ds"
    unfolding rv using all nd by (simp add: takeWhile_tail)
  have dw: "dropWhile isDigit (rev (i @ ''-'' @ ds)) = CHR ''-'' # rev i"
    unfolding rv using all nd by (simp add: dropWhile_append3)
  have "length name \<ge> 4" using assms(1) by simp
  then show ?thesis
    unfolding name_shape_def Let_def stem suf tw dw using assms(2,4) by simp
qed

lemma name_shapeD:
  assumes "name_shape name"
  shows "\<exists>i ds. name = i @ ''-'' @ ds @ ''.tar'' \<and> ds \<noteq> [] \<and> list_all isDigit ds
           \<and> decimalValue ds < 2 ^ 63"
proof -
  define stem where "stem = take (length name - 4) name"
  define ds where "ds = rev (takeWhile isDigit (rev stem))"
  define pre where "pre = rev (dropWhile isDigit (rev stem))"
  have a: "drop (length name - 4) name = ''.tar''" "ds \<noteq> []" "pre \<noteq> []"
    "last pre = CHR ''-''" "decimalValue ds < 2 ^ 63"
    using assms unfolding name_shape_def Let_def stem_def ds_def pre_def by simp_all
  have "rev (takeWhile isDigit (rev stem) @ dropWhile isDigit (rev stem)) = stem" by simp
  then have "rev (dropWhile isDigit (rev stem)) @ rev (takeWhile isDigit (rev stem)) = stem"
    by (simp only: rev_append)
  then have stem: "stem = pre @ ds" unfolding ds_def pre_def by (rule sym)
  have pre: "pre = butlast pre @ ''-''" using a(3,4) by (metis append_butlast_last_id)
  have "name = stem @ ''.tar''"
    using a(1) append_take_drop_id [of "length name - 4" name] unfolding stem_def by simp
  then have "name = butlast pre @ ''-'' @ ds @ ''.tar''" using stem pre
    by (metis append.assoc)
  moreover have "list_all isDigit ds" unfolding ds_def list_all_iff
    by (auto dest: set_takeWhileD)
  ultimately show ?thesis using a(2,5) by blast
qed

lemma ParseBackupName_Inr_shape:
  assumes "ParseBackupName name = Inr r"
  shows "name_shape name"
proof -
  obtain g1 g2 where m: "match_from [] name = Some (g1, g2)"
    using assms by (cases "match_from [] name")
      (auto simp: ParseBackupName_def FindStringSubmatch_def)
  then obtain t where p: "ParseInt g2 = Inr t"
    using assms by (cases "ParseInt g2")
      (auto simp: ParseBackupName_def FindStringSubmatch_def)
  from match_from_Some [OF m] have d: "name = g1 @ ''-'' @ g2 @ ''.tar''" "g2 \<noteq> []"
    "list_all isDigit g2" by auto
  have "decimalValue g2 < 2 ^ 63" by (rule ParseInt_digits_Inr [OF p d(2,3)])
  with d show ?thesis by (rule name_shapeI)
qed

lemma ParseBackupName_error: "ParseBackupName name = Inl e \<Longrightarrow> e = ErrInvalidBackupName name"
  by (auto simp: ParseBackupName_def Let_def split: if_splits sum.splits)

lemma ParseInt_error: "ParseInt s = Inl e \<Longrightarrow> \<exists>ne. e = NumError s ne"
  by (auto simp: ParseInt_def Let_def split: if_splits sum.splits num_err.splits)

lemma ParseInt_range: "ParseInt s = Inr t \<Longrightarrow> - (2 ^ 63) \<le> t \<and> t < 2 ^ 63"
  by (auto simp: ParseInt_def Let_def maxUint64_def split: if_splits sum.splits num_err.splits)

section \<open>Properties of \<open>ParseBackupName\<close>\<close>

text \<open>
  C3 (as amended).  For every instance id that contains no newline byte (hyphens are
  allowed) and every timestamp \<open>t\<close> with \<open>0 \<le> t < 2 ^ 63\<close>, parsing the name
  \<open>"<instanceId>-<t>.tar"\<close> returns exactly that instance id and the time
  \<open>time.Unix(t, 0)\<close>, whose \<open>Unix()\<close> is \<open>t\<close>.  The timestamp is the digit run after the
  last hyphen before \<open>.tar\<close>.
\<close>

theorem ParseBackupName_roundtrip:
  assumes "newline \<notin> set instanceId" "0 \<le> t" "t < 2 ^ 63"
  shows "ParseBackupName (instanceId @ ''-'' @ itoa t @ ''.tar'') = Inr (instanceId, time_Unix t)
         \<and> Unix (time_Unix t) = t"
proof -
  have it: "itoa t = utoa (nat t)" using assms(2) by (simp add: itoa_def)
  have m: "match_from [] (instanceId @ ''-'' @ utoa (nat t) @ ''.tar'')
             = Some ([] @ instanceId, utoa (nat t))"
    by (rule match_from_roundtrip [OF assms(1) utoa_nonempty utoa_digits])
  have "nat t < 2 ^ 63" using assms(2,3) by (simp add: nat_less_iff)
  then have p: "ParseInt (utoa (nat t)) = Inr (int (nat t))" by (rule ParseInt_utoa)
  have "ParseBackupName (instanceId @ ''-'' @ itoa t @ ''.tar'') = Inr (instanceId, time_Unix t)"
    unfolding it using m p assms(2) by (simp add: ParseBackupName_def FindStringSubmatch_def)
  moreover have "Unix (time_Unix t) = t"
    using assms(2,3) by (intro Unix_time_Unix) simp_all
  ultimately show ?thesis by simp
qed

text \<open>The instance of the specification: \<open>"myavs-node-1700000000.tar"\<close>.\<close>

theorem ParseBackupName_roundtrip_witness:
  "newline \<notin> set ''myavs-node'' \<and> (0::int) \<le> 1700000000 \<and> (1700000000::int) < 2 ^ 63
   \<and> ParseBackupName ''myavs-node-1700000000.tar'' = Inr (''myavs-node'', time_Unix 1700000000)
   \<and> Unix (time_Unix 1700000000) = 1700000000"
  using ParseBackupName_roundtrip [of "''myavs-node''" 1700000000]
  by (simp add: newline_def itoa_def utoa.simps digitChar_def)

text \<open>
  The claim as stated, for every instance id, fails: \<open>.\<close> does not match a newline, so
  the name built from the three-byte instance id \<open>a\<close>, newline, \<open>b\<close> and the timestamp 5 is
  rejected.
\<close>

theorem ParseBackupName_newline_counterexample:
  "ParseBackupName ([CHR ''a'', CHR 0x0A, CHR ''b''] @ ''-'' @ itoa 5 @ ''.tar'')
     = Inl (ErrInvalidBackupName [CHR ''a'', CHR 0x0A, CHR ''b'', CHR ''-'', CHR ''5'', CHR ''.'', CHR ''t'', CHR ''a'', CHR ''r''])"
  by (simp add: ParseBackupName_def FindStringSubmatch_def match_tail_def newline_def
      itoa_def utoa.simps isDigit_def digitChar_def)

text \<open>
  C9.  A name that does not have the shape \<open>"<instanceId>-<digits>.tar"\<close> (wrong
  extension, no hyphen-delimited digit run before \<open>.tar\<close>, or a digit run that is not a
  non-negative 64-bit integer) is rejected with \<open>ErrInvalidBackupName\<close>, a format error;
  in particular \<open>"invalid.tar"\<close> is.
\<close>

theorem ParseBackupName_rejects:
  "(\<not> name_shape name \<longrightarrow> ParseBackupName name = Inl (ErrInvalidBackupName name))
   \<and> ParseBackupName ''invalid.tar'' = Inl (ErrInvalidBackupName ''invalid.tar'')
   \<and> kind_of (ErrInvalidBackupName name) = FormatError"
proof -
  have g: "\<not> name_shape n \<Longrightarrow> ParseBackupName n = Inl (ErrInvalidBackupName n)" for n
  proof (cases "ParseBackupName n")
    case (Inl e)
    then show ?thesis using ParseBackupName_error by simp
  next
    case (Inr r)
    assume "\<not> name_shape n"
    then show ?thesis using ParseBackupName_Inr_shape [OF Inr] by simp
  qed
  have "\<not> name_shape ''invalid.tar''"
    by (simp add: name_shape_def Let_def isDigit_def)
  then show ?thesis using g by simp
qed

text \<open>A name with the wrong extension.\<close>

theorem ParseBackupName_rejects_witness:
  "\<not> name_shape ''backup-20230101.zip''
   \<and> ParseBackupName ''backup-20230101.zip'' = Inl (ErrInvalidBackupName ''backup-20230101.zip'')"
  using ParseBackupName_rejects [of "''backup-20230101.zip''"]
  by (simp add: name_shape_def)

section \<open>Properties of \<open>BackupFromTar\<close>\<close>

text \<open>
  C6.  The prechecks come first and in order.  For a path that the storage reports as not
  existing, \<open>BackupFromTar\<close> fails with the wrapped \<open>os.ErrNotExist\<close>; for an existing
  path whose extension is not \<open>.tar\<close> it fails with \<open>ErrInvalidBackupName\<close>, a format
  error.  In both cases the only call made on the storage is the \<open>Stat\<close> of the existence
  check: the archive is neither opened nor parsed.
\<close>

theorem BackupFromTar_prechecks:
  "(Stat fs missing = StatNotExist \<longrightarrow>
      BackupFromTar json_Unmarshal fs missing = (Inl (ErrNotExist missing), [EvStat missing])
      \<and> kind_of (ErrNotExist missing) = NotExist
      \<and> \<not> opens_archive (snd (BackupFromTar json_Unmarshal fs missing)))
   \<and> (Stat fs src = StatOk \<and> filepath_Ext src \<noteq> ''.tar'' \<longrightarrow>
      BackupFromTar json_Unmarshal fs src = (Inl (ErrInvalidBackupName src), [EvStat src])
      \<and> kind_of (ErrInvalidBackupName src) = FormatError
      \<and> \<not> opens_archive (snd (BackupFromTar json_Unmarshal fs src)))"
  by (simp add: BackupFromTar_def afero_Exists_def opens_archive_def)

text \<open>A path that does not exist, and an existing file named \<open>notes.txt\<close>.\<close>

theorem BackupFromTar_prechecks_witness:
  "Stat example_fs ''backups/absent.tar'' = StatNotExist
   \<and> BackupFromTar example_unmarshal example_fs ''backups/absent.tar''
       = (Inl (ErrNotExist ''backups/absent.tar''), [EvStat ''backups/absent.tar''])
   \<and> Stat example_fs ''backups/notes.txt'' = StatOk
   \<and> filepath_Ext ''backups/notes.txt'' \<noteq> ''.tar''
   \<and> BackupFromTar example_unmarshal example_fs ''backups/notes.txt''
       = (Inl (ErrInvalidBackupName ''backups/notes.txt''), [EvStat ''backups/notes.txt''])"
  using BackupFromTar_prechecks [of example_fs "''backups/absent.tar''" example_unmarshal
      "''backups/notes.txt''"]
  by (simp add: example_fs_def filepath_Ext_def)

text \<open>
  C7 (as amended).  For an existing \<open>.tar\<close> path whose archive opens and whose
  \<open>data/state.json\<close> entry is found and decodes, a \<open>timestamp\<close> entry whose content
  \<open>strconv.ParseInt\<close> rejects makes \<open>BackupFromTar\<close> fail with that
  \<open>*strconv.NumError\<close>, a format error.
\<close>

theorem BackupFromTar_bad_timestamp:
  assumes "Stat fs src = StatOk" and "filepath_Ext src = ''.tar''"
    and "OpenFile fs src = Inr tarFile"
    and "TarReadFile ''data/state.json'' tarFile = Inr stateData"
    and "json_Unmarshal stateData = Inr instance"
    and "TarReadFile ''timestamp'' tarFile = Inr timestampData"
    and "ParseInt timestampData = Inl e"
  shows "fst (BackupFromTar json_Unmarshal fs src) = Inl e \<and> kind_of e = FormatError
         \<and> (\<exists>ne. e = NumError timestampData ne)"
proof -
  obtain ne where e: "e = NumError timestampData ne"
    using ParseInt_error [OF assms(7)] by blast
  have "fst (BackupFromTar json_Unmarshal fs src) = Inl e"
    using assms
    by (simp add: BackupFromTar_def afero_Exists_def loadBackupTarStateJson_def
        loadBackupTarTimestamp_def)
  then show ?thesis using e by simp
qed

text \<open>An archive whose \<open>timestamp\<close> entry holds \<open>17e8\<close>.\<close>

theorem BackupFromTar_bad_timestamp_witness:
  "Stat example_fs ''backups/bad-timestamp.tar'' = StatOk
   \<and> filepath_Ext ''backups/bad-timestamp.tar'' = ''.tar''
   \<and> ParseInt ''17e8'' = Inl (NumError ''17e8'' ErrSyntax)
   \<and> fst (BackupFromTar example_unmarshal example_fs ''backups/bad-timestamp.tar'')
       = Inl (NumError ''17e8'' ErrSyntax)"
proof -
  have p: "ParseInt ''17e8'' = Inl (NumError ''17e8'' ErrSyntax)"
    by (simp add: ParseInt_def ParseUint_def isDigit_def digitVal_def cutoff64_def maxUint64_def)
  have s: "Stat example_fs ''backups/bad-timestamp.tar'' = StatOk"
    by (simp add: example_fs_def)
  have x: "filepath_Ext ''backups/bad-timestamp.tar'' = ''.tar''"
    by (simp add: filepath_Ext_def)
  have "fst (BackupFromTar example_unmarshal example_fs ''backups/bad-timestamp.tar'')
          = Inl (NumError ''17e8'' ErrSyntax)"
    using BackupFromTar_bad_timestamp [of example_fs "''backups/bad-timestamp.tar''"
        "[(''timestamp'', ''17e8''), (''data/state.json'', example_state_json)]"
        example_state_json example_unmarshal example_instance "''17e8''"
        "NumError ''17e8'' ErrSyntax", OF s x _ _ _ _ p]
    by (simp add: example_fs_def example_unmarshal_def)
  then show ?thesis using p s x by simp
qed

text \<open>
  The claim as stated, for every \<open>.tar\<close> archive with a malformed \<open>timestamp\<close> entry,
  fails: \<open>data/state.json\<close> is extracted first, and an archive that lacks it fails with
  the tar accessor's not-found error before the timestamp is read.
\<close>

theorem BackupFromTar_bad_timestamp_counterexample:
  "Stat example_fs ''backups/no-state.tar'' = StatOk
   \<and> filepath_Ext ''backups/no-state.tar'' = ''.tar''
   \<and> OpenFile example_fs ''backups/no-state.tar'' = Inr [(''timestamp'', ''17e8'')]
   \<and> TarReadFile ''timestamp'' [(''timestamp'', ''17e8'')] = Inr ''17e8''
   \<and> ParseInt ''17e8'' = Inl (NumError ''17e8'' ErrSyntax)
   \<and> fst (BackupFromTar example_unmarshal example_fs ''backups/no-state.tar'')
       = Inl (TarNotFound ''data/state.json'')
   \<and> kind_of (TarNotFound ''data/state.json'') \<noteq> FormatError"
  by (simp add: BackupFromTar_def afero_Exists_def loadBackupTarStateJson_def
      example_fs_def filepath_Ext_def
      ParseInt_def ParseUint_def isDigit_def digitVal_def cutoff64_def maxUint64_def)

text \<open>
  C8.  For an archive (an existing path with the extension \<open>.tar\<close> that opens) whose
  \<open>data/state.json\<close> entry decodes into an instance and whose \<open>timestamp\<close> entry parses,
  \<open>BackupFromTar\<close> returns a \<open>Backup\<close> whose \<open>InstanceId\<close> is the instance's \<open>ID()\<close>,
  whose \<open>Version\<close>, \<open>Commit\<close> and \<open>Url\<close> are the instance's, and whose \<open>Timestamp\<close> is
  \<open>time.Unix\<close> of the parsed value (its \<open>Unix()\<close> gives the value back).
\<close>

theorem BackupFromTar_fields:
  assumes "Stat fs src = StatOk" and "filepath_Ext src = ''.tar''"
    and "OpenFile fs src = Inr tarFile"
    and "TarReadFile ''data/state.json'' tarFile = Inr stateData"
    and "json_Unmarshal stateData = Inr instance"
    and "TarReadFile ''timestamp'' tarFile = Inr timestampData"
    and "ParseInt timestampData = Inr timestampInt"
  shows "fst (BackupFromTar json_Unmarshal fs src)
           = Inr \<lparr>id' = [], InstanceId = ID instance, Timestamp = time_Unix timestampInt,
                  Version = Instance.Version instance, Commit = Instance.Commit instance,
                  Url = URL instance\<rparr>
         \<and> Unix (time_Unix timestampInt) = timestampInt"
proof -
  have "Unix (time_Unix timestampInt) = timestampInt"
    using ParseInt_range [OF assms(7)] by (intro Unix_time_Unix) simp_all
  then show ?thesis
    using assms
    by (simp add: BackupFromTar_def afero_Exists_def loadBackupTarStateJson_def
        loadBackupTarTimestamp_def)
qed

text \<open>The archive \<open>backups/mock-avs-v0.1.0-1700000000.tar\<close>.\<close>

theorem BackupFromTar_fields_witness:
  "Stat example_fs ''backups/mock-avs-v0.1.0-1700000000.tar'' = StatOk
   \<and> filepath_Ext ''backups/mock-avs-v0.1.0-1700000000.tar'' = ''.tar''
   \<and> ParseInt ''1700000000'' = Inr 1700000000
   \<and> fst (BackupFromTar example_unmarshal example_fs ''backups/mock-avs-v0.1.0-1700000000.tar'')
     = Inr \<lparr>id' = [], InstanceId = ''mock-avs-v0.1.0'', Timestamp = time_Unix 1700000000,
            Version = ''v0.1.0'', Commit = ''a3406616b848164358fdd24465b8eecda5f5ae34'',
            Url = ''https://github.com/NethermindEth/mock-avs''\<rparr>
   \<and> Unix (time_Unix 1700000000) = 1700000000"
proof -
  have p: "ParseInt ''1700000000'' = Inr 1700000000"
    by (simp add: ParseInt_def ParseUint_def isDigit_def digitVal_def cutoff64_def maxUint64_def)
  have s: "Stat example_fs ''backups/mock-avs-v0.1.0-1700000000.tar'' = StatOk"
    by (simp add: example_fs_def)
  have x: "filepath_Ext ''backups/mock-avs-v0.1.0-1700000000.tar'' = ''.tar''"
    by (simp add: filepath_Ext_def)
  have "fst (BackupFromTar example_unmarshal example_fs
          ''backups/mock-avs-v0.1.0-1700000000.tar'')
        = Inr \<lparr>id' = [], InstanceId = ID example_instance, Timestamp = time_Unix 1700000000,
            Version = Instance.Version example_instance,
            Commit = Instance.Commit example_instance, Url = URL example_instance\<rparr>
        \<and> Unix (time_Unix 1700000000) = 1700000000"
    using BackupFromTar_fields [of example_fs "''backups/mock-avs-v0.1.0-1700000000.tar''"
        "[(''data/state.json'', example_state_json), (''timestamp'', ''1700000000'')]"
        example_state_json example_unmarshal example_instance "''1700000000''" 1700000000,
        OF s x _ _ _ _ p]
    by (simp add: example_fs_def example_unmarshal_def)
  then show ?thesis using p s x by (simp add: example_instance_def ID_def)
qed

end
